theory Spec2Isabelle
  imports Main
begin

section \<open>Python strings, lists and dictionaries\<close>

text \<open>
  Python strings are modelled as \<open>string\<close>; a \<open>char\<close> stands for a code point below 256,
  which is the range on which the functions below agree with \<open>str.isspace\<close>,
  \<open>str.lower\<close>, \<open>str.strip\<close> and \<open>str.split\<close>.
\<close>

definition NL :: string where
  "NL = [CHR 0x0A]"

definition is_space :: "char \<Rightarrow> bool" where
  "is_space c = ((of_char c :: nat) \<in> set [9, 10, 11, 12, 13, 28, 29, 30, 31, 32, 133, 160])"

definition py_strip :: "string \<Rightarrow> string" where
  "py_strip s = rev (dropWhile is_space (rev (dropWhile is_space s)))"

fun split_acc :: "string \<Rightarrow> string \<Rightarrow> string list" where
  "split_acc w [] = (if w = [] then [] else [w])"
| "split_acc w (c # cs) =
     (if is_space c then (if w = [] then split_acc [] cs else w # split_acc [] cs)
      else split_acc (w @ [c]) cs)"

definition py_split :: "string \<Rightarrow> string list" where
  "py_split s = split_acc [] s"

definition lower_char :: "char \<Rightarrow> char" where
  "lower_char c =
     (let n = (of_char c :: nat)
      in if (65 \<le> n \<and> n \<le> 90) \<or> (192 \<le> n \<and> n \<le> 222 \<and> n \<noteq> 215)
         then char_of (n + 32) else c)"

definition py_lower :: "string \<Rightarrow> string" where
  "py_lower s = map lower_char s"

fun starts_with :: "string \<Rightarrow> string \<Rightarrow> bool" where
  "starts_with s [] = True"
| "starts_with [] (k # ks) = False"
| "starts_with (c # cs) (k # ks) = (c = k \<and> starts_with cs ks)"

text \<open>\<open>contains kw s\<close> is Python's \<open>kw in s\<close> on strings.\<close>

fun contains :: "string \<Rightarrow> string \<Rightarrow> bool" where
  "contains kw [] = (kw = [])"
| "contains kw (c # cs) = (starts_with (c # cs) kw \<or> contains kw cs)"

fun py_join :: "string \<Rightarrow> string list \<Rightarrow> string" where
  "py_join sep [] = []"
| "py_join sep [p] = p"
| "py_join sep (p # q # ps) = p @ sep @ py_join sep (q # ps)"

text \<open>\<open>last_n n xs\<close> is the slice \<open>xs[-n:]\<close> for a positive constant \<open>n\<close>; it is a fresh list.\<close>

definition last_n :: "nat \<Rightarrow> 'a list \<Rightarrow> 'a list" where
  "last_n n xs = drop (length xs - n) xs"

fun str_of_nat :: "nat \<Rightarrow> string" where
  "str_of_nat n =
     (if n < 10 then [char_of (48 + n)]
      else str_of_nat (n div 10) @ [char_of (48 + n mod 10)])"

definition str_of_int :: "int \<Rightarrow> string" where
  "str_of_int i = (if i < 0 then ''-'' @ str_of_nat (nat (- i)) else str_of_nat (nat i))"

text \<open>Metadata values are strings or integers (a PDF loader stores the page as an integer).\<close>

datatype pyval = PStr string | PInt int

fun py_str :: "pyval \<Rightarrow> string" where
  "py_str (PStr s) = s"
| "py_str (PInt i) = str_of_int i"

text \<open>
  A dictionary is an association list; \<open>dict_get d k dflt\<close> is \<open>d.get(k, dflt)\<close>.
\<close>

definition dict_get :: "('k \<times> 'v) list \<Rightarrow> 'k \<Rightarrow> 'v \<Rightarrow> 'v" where
  "dict_get d k dflt = (case map_of d k of None \<Rightarrow> dflt | Some v \<Rightarrow> v)"

section \<open>Retrieved documents\<close>

record document =
  page_content :: string
  metadata :: "(string \<times> pyval) list"

subsection \<open>utils.format_documents_for_context\<close>

definition truncation_marker :: string where
  "truncation_marker = NL @ ''... (Additional documents truncated due to length limit) ...''"

definition doc_header :: "nat \<Rightarrow> document \<Rightarrow> string" where
  "doc_header i doc =
     (let source = dict_get (metadata doc) ''source_file'' (PStr ''Unknown Source'');
          page = dict_get (metadata doc) ''page'' (PStr ''N/A'')
      in NL @ ''--- Document '' @ str_of_nat (i + 1) @ '': '' @ py_str source
           @ '' (Page '' @ py_str page @ '') ---'' @ NL)"

text \<open>
  The \<open>for i, doc in enumerate(documents)\<close> loop, with its two locals
  \<open>context_parts\<close> and \<open>current_length\<close>; the \<open>break\<close> is the branch that returns.
\<close>

fun format_loop :: "int \<Rightarrow> nat \<Rightarrow> document list \<Rightarrow> string list \<Rightarrow> int \<Rightarrow> string list" where
  "format_loop max_length i [] context_parts current_length = context_parts"
| "format_loop max_length i (doc # docs) context_parts current_length =
     (let header = doc_header i doc;
          content = py_strip (page_content doc);
          addition_length = int (length header) + int (length content)
      in if current_length + addition_length > max_length \<and> context_parts \<noteq> []
         then context_parts @ [truncation_marker]
         else format_loop max_length (i + 1) docs (context_parts @ [header @ content])
                (current_length + addition_length))"

definition format_documents_for_context :: "document list \<Rightarrow> int \<Rightarrow> string" where
  "format_documents_for_context documents max_length =
     (if documents = [] then ''No relevant documents found.''
      else py_join NL (format_loop max_length 0 documents [] 0))"

subsection \<open>RAGPipeline._extract_sources\<close>

text \<open>The key \<open>"file"\<close> of a source dictionary is the field \<open>src_file\<close>.\<close>

record source =
  src_file :: pyval
  page :: string
  content_preview :: string

definition source_id :: "document \<Rightarrow> string" where
  "source_id doc =
     py_str (dict_get (metadata doc) ''source_file'' (PStr ''Unknown'')) @ ''_''
       @ py_str (dict_get (metadata doc) ''page'' (PStr ''N/A''))"

definition content_preview_of :: "string \<Rightarrow> string" where
  "content_preview_of content =
     (if length content > 200 then take 200 content @ ''...'' else content)"

definition source_of :: "document \<Rightarrow> source" where
  "source_of doc =
     \<lparr> src_file = dict_get (metadata doc) ''source_file'' (PStr ''Unknown''),
       page = py_str (dict_get (metadata doc) ''page'' (PStr ''N/A'')),
       content_preview = content_preview_of (page_content doc) \<rparr>"

fun extract_loop :: "document list \<Rightarrow> source list \<Rightarrow> string set \<Rightarrow> source list" where
  "extract_loop [] sources seen_sources = sources"
| "extract_loop (doc # docs) sources seen_sources =
     (if source_id doc \<notin> seen_sources
      then extract_loop docs (sources @ [source_of doc]) (insert (source_id doc) seen_sources)
      else extract_loop docs sources seen_sources)"

definition extract_sources :: "document list \<Rightarrow> source list" where
  "extract_sources documents = extract_loop documents [] {}"

section \<open>External collaborators\<close>

text \<open>
  A call into an external collaborator (vector index, document loader, generation backend)
  returns a value, raises an \<open>Exception\<close> with the given \<open>str(e)\<close>, or raises a
  \<open>BaseException\<close> that no \<open>except Exception\<close> handler catches (an interrupt).
\<close>

datatype 'a outcome = Returned 'a | Raised string | Interrupted

text \<open>
  \<open>retrieve\<close> is \<open>vector_store.create_retriever().invoke(question)\<close>;
  \<open>llm_invoke question context\<close> is \<open>llm.invoke\<close> on the messages that the fixed prompt
  template produces from these two arguments, giving the content of the response;
  \<open>now\<close> is \<open>datetime.now().isoformat()\<close>; \<open>process_documents\<close>,
  \<open>add_documents\<close> and \<open>collection_count\<close> are the document processor's pipeline,
  the vector store's insertion and the collection's \<open>count()\<close>.
\<close>

record env =
  retrieve :: "string \<Rightarrow> document list outcome"
  llm_invoke :: "string \<Rightarrow> string \<Rightarrow> string outcome"
  now :: string
  process_documents :: "document list outcome"
  add_documents :: "document list \<Rightarrow> string list outcome"
  collection_count :: "nat outcome"

text \<open>An invocation of the generation backend, recorded by its question and context.\<close>

type_synonym llm_call = "string \<times> string"

type_synonym exchange = "(string \<times> string) list"

section \<open>LLMHandler\<close>

definition error_response :: string where
  "error_response =
     ''I apologize, but I'm experiencing technical difficulties at the moment. '' @ NL
     @ ''Please try rephrasing your question or contact the HR department directly for immediate assistance.''
     @ NL @ NL
     @ ''If the issue persists, please check that your OpenAI API key is properly configured.''"

definition generate_response :: "env \<Rightarrow> string \<Rightarrow> string \<Rightarrow> string outcome \<times> llm_call list" where
  "generate_response e question context =
     (case llm_invoke e question context of
        Returned result \<Rightarrow> (Returned (py_strip result), [(question, context)])
      | Raised msg \<Rightarrow> (Returned error_response, [(question, context)])
      | Interrupted \<Rightarrow> (Interrupted, [(question, context)]))"

definition render_exchanges :: "exchange list \<Rightarrow> string" where
  "render_exchanges exchanges =
     concat (map (\<lambda>exchange. ''Q: '' @ dict_get exchange ''question'' '''' @ NL
                              @ ''A: '' @ dict_get exchange ''answer'' '''' @ NL) exchanges)"

definition history_context :: "exchange list \<Rightarrow> string" where
  "history_context chat_hist =
     (if chat_hist \<noteq> []
      then NL @ NL @ ''Previous conversation context:'' @ NL @ render_exchanges (last_n 3 chat_hist)
      else '''')"

definition generate_followup_response ::
    "env \<Rightarrow> string \<Rightarrow> string \<Rightarrow> exchange list \<Rightarrow> string outcome \<times> llm_call list" where
  "generate_followup_response e question context chat_hist =
     (let extended_context = context @ history_context chat_hist
      in case llm_invoke e question extended_context of
           Returned result \<Rightarrow> (Returned (py_strip result), [(question, extended_context)])
         | Raised msg \<Rightarrow> (Returned error_response, [(question, extended_context)])
         | Interrupted \<Rightarrow> (Interrupted, [(question, extended_context)]))"

definition inappropriate_keywords :: "string list" where
  "inappropriate_keywords = [''hack'', ''bypass'', ''illegal'', ''fraud'']"

definition hr_keywords :: "string list" where
  "hr_keywords =
     [''policy'', ''leave'', ''vacation'', ''sick'', ''benefits'', ''salary'', ''promotion'',
      ''training'', ''performance'', ''disciplinary'', ''harassment'', ''compliance'',
      ''onboarding'', ''termination'', ''resignation'', ''hr'', ''human resources'',
      ''employee'', ''workplace'', ''code of conduct'', ''ethics'']"

definition scope_reminder :: string where
  "scope_reminder =
     ''I'll do my best to help with your question. For the most accurate information, please ensure your question relates to HR policies or workplace procedures.''"

definition validate_question :: "string \<Rightarrow> bool \<times> string" where
  "validate_question question =
     (if question = [] \<or> length (py_strip question) < 3
      then (False, ''Please provide a more detailed question about HR policies or procedures.'')
      else let question_lower = py_lower question
           in if list_ex (\<lambda>keyword. contains keyword question_lower) inappropriate_keywords
              then (False, ''I can only assist with legitimate HR policy questions.'')
              else let has_hr_keyword = list_ex (\<lambda>keyword. contains keyword question_lower) hr_keywords
                   in if \<not> has_hr_keyword \<and> length (py_split question) > 3
                      then (True, scope_reminder)
                      else (True, ''''))"

section \<open>RAGPipeline\<close>

record pipeline =
  is_initialized :: bool
  chat_history :: "exchange list"

text \<open>The state after \<open>__init__\<close>.\<close>

definition new_pipeline :: pipeline where
  "new_pipeline = \<lparr> is_initialized = False, chat_history = [] \<rparr>"

text \<open>
  The dictionary that \<open>query\<close> returns: \<open>answer\<close> and \<open>sources\<close> are always present,
  the other keys only on some paths.
\<close>

record query_result =
  answer :: string
  sources :: "source list"
  error :: "string option"
  warning :: "string option"
  retrieved_docs_count :: "nat option"
  success :: "bool option"

definition not_ready_result :: query_result where
  "not_ready_result =
     \<lparr> answer = ''The HR Assistant is not ready yet. Please ensure HR documents have been loaded.'',
       sources = [], error = Some ''System not initialized'', warning = None,
       retrieved_docs_count = None, success = None \<rparr>"

definition invalid_result :: "string \<Rightarrow> query_result" where
  "invalid_result validation_msg =
     \<lparr> answer = validation_msg, sources = [], error = Some ''Invalid question'', warning = None,
       retrieved_docs_count = None, success = None \<rparr>"

definition no_documents_result :: query_result where
  "no_documents_result =
     \<lparr> answer = ''I couldn't find relevant information in the HR documents to answer your question. Please try rephrasing your question or contact HR directly for assistance.'',
       sources = [], error = None, warning = Some ''No relevant documents found'',
       retrieved_docs_count = None, success = None \<rparr>"

definition failure_result :: "string \<Rightarrow> query_result" where
  "failure_result msg =
     \<lparr> answer = ''I encountered an error while processing your question. Please try again or contact HR directly.'',
       sources = [], error = Some msg, warning = None,
       retrieved_docs_count = None, success = None \<rparr>"

definition new_exchange :: "env \<Rightarrow> string \<Rightarrow> string \<Rightarrow> exchange" where
  "new_exchange e question response =
     [(''question'', question), (''answer'', response), (''timestamp'', now e)]"

text \<open>
  The body of the \<open>try\<close> block of \<open>query\<close>: its outcome, the pipeline it leaves and the
  backend invocations it made.
\<close>

definition query_body ::
    "env \<Rightarrow> pipeline \<Rightarrow> string \<Rightarrow> bool \<Rightarrow> query_result outcome \<times> pipeline \<times> llm_call list" where
  "query_body e self question include_sources =
     (case validate_question question of (is_valid, validation_msg) \<Rightarrow>
        if \<not> is_valid then (Returned (invalid_result validation_msg), self, [])
        else case retrieve e question of
               Interrupted \<Rightarrow> (Interrupted, self, [])
             | Raised msg \<Rightarrow> (Raised msg, self, [])
             | Returned retrieved_docs \<Rightarrow>
                 if retrieved_docs = [] then (Returned no_documents_result, self, [])
                 else let context = format_documents_for_context retrieved_docs 4000;
                          (generated, calls) =
                            (if chat_history self \<noteq> []
                             then generate_followup_response e question context (chat_history self)
                             else generate_response e question context)
                      in case generated of
                           Interrupted \<Rightarrow> (Interrupted, self, calls)
                         | Raised msg \<Rightarrow> (Raised msg, self, calls)
                         | Returned response \<Rightarrow>
                             let srcs = (if include_sources then extract_sources retrieved_docs else []);
                                 appended = chat_history self @ [new_exchange e question response];
                                 limited = (if length appended > 10 then last_n 10 appended else appended)
                             in (Returned \<lparr> answer = response, sources = srcs, error = None,
                                            warning = None,
                                            retrieved_docs_count = Some (length retrieved_docs),
                                            success = Some True \<rparr>,
                                 self\<lparr>chat_history := limited\<rparr>, calls))"

definition query ::
    "env \<Rightarrow> pipeline \<Rightarrow> string \<Rightarrow> bool \<Rightarrow> query_result outcome \<times> pipeline \<times> llm_call list" where
  "query e self question include_sources =
     (if \<not> is_initialized self then (Returned not_ready_result, self, [])
      else case query_body e self question include_sources of
             (Raised msg, self', calls) \<Rightarrow> (Returned (failure_result msg), self', calls)
           | other \<Rightarrow> other)"

text \<open>
  \<open>query_with_history\<close>: the slice \<open>conversation_history[-5:]\<close> is a new list, so the
  \<open>append\<close> inside \<open>query\<close> touches neither \<open>original_history\<close> nor the caller's list;
  the \<open>finally\<close> clause runs on every outcome of the inner call.
\<close>

definition query_with_history ::
    "env \<Rightarrow> pipeline \<Rightarrow> string \<Rightarrow> exchange list \<Rightarrow> query_result outcome \<times> pipeline \<times> llm_call list" where
  "query_with_history e self question conversation_history =
     (let original_history = chat_history self;
          (result, self', calls) =
             query e (self\<lparr>chat_history := last_n 5 conversation_history\<rparr>) question True
      in (result, self'\<lparr>chat_history := original_history\<rparr>, calls))"

definition clear_chat_history :: "pipeline \<Rightarrow> pipeline" where
  "clear_chat_history self = self\<lparr>chat_history := []\<rparr>"

subsection \<open>initialize_knowledge_base\<close>

text \<open>\<open>VectorStoreManager.get_collection_count\<close> turns every \<open>Exception\<close> into 0.\<close>

definition get_collection_count :: "env \<Rightarrow> nat outcome" where
  "get_collection_count e =
     (case collection_count e of
        Returned n \<Rightarrow> Returned n
      | Raised msg \<Rightarrow> Returned 0
      | Interrupted \<Rightarrow> Interrupted)"

definition check_vectorstore_ready :: "env \<Rightarrow> bool outcome" where
  "check_vectorstore_ready e =
     (case get_collection_count e of
        Returned n \<Rightarrow> Returned (n > 0)
      | Raised msg \<Rightarrow> Raised msg
      | Interrupted \<Rightarrow> Interrupted)"

text \<open>The body of the \<open>try\<close> block of \<open>initialize_knowledge_base\<close>.\<close>

definition initialize_body :: "env \<Rightarrow> pipeline \<Rightarrow> bool outcome \<times> pipeline" where
  "initialize_body e self =
     (case process_documents e of
        Interrupted \<Rightarrow> (Interrupted, self)
      | Raised msg \<Rightarrow> (Raised msg, self)
      | Returned documents \<Rightarrow>
          if documents = [] then (Returned False, self)
          else case add_documents e documents of
                 Interrupted \<Rightarrow> (Interrupted, self)
               | Raised msg \<Rightarrow> (Raised msg, self)
               | Returned doc_ids \<Rightarrow>
                   (case check_vectorstore_ready e of
                      Interrupted \<Rightarrow> (Interrupted, self)
                    | Raised msg \<Rightarrow> (Raised msg, self)
                    | Returned ready \<Rightarrow>
                        if \<not> ready then (Returned False, self)
                        else (Returned True, self\<lparr>is_initialized := True\<rparr>)))"

definition initialize_knowledge_base :: "env \<Rightarrow> pipeline \<Rightarrow> bool outcome \<times> pipeline" where
  "initialize_knowledge_base e self =
     (case initialize_body e self of
        (Raised msg, self') \<Rightarrow> (Returned False, self'\<lparr>is_initialized := False\<rparr>)
      | other \<Rightarrow> other)"

section \<open>Sequences of queries\<close>



section \<open>The specification's wording of two bounds\<close>

text \<open>
  The specification's bound on the assembled context: the budget, one truncation marker and,
  when the first rendered chunk alone exceeds the budget, the length of that chunk.
\<close>

definition claimed_context_bound :: "document list \<Rightarrow> int \<Rightarrow> int" where
  "claimed_context_bound documents max_length =
     max_length + int (length truncation_marker)
       + (case documents of
            [] \<Rightarrow> 0
          | doc # rest \<Rightarrow>
              (let first = int (length (doc_header 0 doc @ py_strip (page_content doc)))
               in if first > max_length then first else 0))"


section \<open>Concrete inputs\<close>

definition parking_doc :: document where
  "parking_doc =
     \<lparr> page_content = ''Parking is behind the office.'',
       metadata = [(''source_file'', PStr ''facilities.pdf''), (''page'', PInt 3)] \<rparr>"

definition leave_doc :: "int \<Rightarrow> document" where
  "leave_doc n =
     \<lparr> page_content = ''Annual leave is 25 days.'',
       metadata = [(''source_file'', PStr ''leave.pdf''), (''page'', PInt n)] \<rparr>"

text \<open>Five chunks on four pages: the third repeats the page of the first.\<close>

definition dup_docs :: "document list" where
  "dup_docs = map leave_doc [1, 2, 1, 3, 4]"

definition long_doc :: document where
  "long_doc =
     \<lparr> page_content = replicate 201 (CHR ''x''),
       metadata = [(''source_file'', PStr ''handbook.pdf''), (''page'', PInt 1)] \<rparr>"

definition doc_a1_2 :: document where
  "doc_a1_2 =
     \<lparr> page_content = ''first'', metadata = [(''source_file'', PStr ''a_1''), (''page'', PStr ''2'')] \<rparr>"

definition doc_a_12 :: document where
  "doc_a_12 =
     \<lparr> page_content = ''second'', metadata = [(''source_file'', PStr ''a''), (''page'', PStr ''1_2'')] \<rparr>"

text \<open>A rendered chunk of exactly 40 characters: a header of 30 and 10 of content.\<close>

definition bare_doc :: document where
  "bare_doc =
     \<lparr> page_content = ''0123456789'', metadata = [(''source_file'', PStr ''''), (''page'', PStr '''')] \<rparr>"

definition example_env :: env where
  "example_env =
     \<lparr> retrieve = (\<lambda>question. Returned [parking_doc]),
       llm_invoke = (\<lambda>question context. Returned '' You can park behind the office. ''),
       now = ''2024-05-01T09:00:00'',
       process_documents = Returned [parking_doc],
       add_documents = (\<lambda>documents. Returned [''id-0'']),
       collection_count = Returned 1 \<rparr>"

definition ready_pipeline :: pipeline where
  "ready_pipeline = \<lparr> is_initialized = True, chat_history = [] \<rparr>"

definition exchange_of :: "string \<Rightarrow> string \<Rightarrow> exchange" where
  "exchange_of q a = [(''question'', q), (''answer'', a)]"

definition transcript5 :: "exchange list" where
  "transcript5 =
     [exchange_of ''q1'' ''a1'', exchange_of ''q2'' ''a2'', exchange_of ''q3'' ''a3'',
      exchange_of ''q4'' ''a4'', exchange_of ''q5'' ''a5'']"


section \<open>Auxiliary lemmas\<close>

subsection \<open>Slices and histories\<close>










lemma query_frame: "\<exists>h. fst (snd (query e self q inc)) = self\<lparr>chat_history := h\<rparr>"
proof -
  have self: "self = self\<lparr>chat_history := chat_history self\<rparr>" by simp
  show ?thesis
    by (auto simp: query_def query_body_def generate_response_def generate_followup_response_def
          Let_def split: outcome.splits prod.splits intro: exI [of _ "chat_history self"])
qed


text \<open>The sources of a result are those extracted from the retrieved chunks, or none.\<close>

lemma query_sources:
  assumes "fst (query e self q inc) = Returned r"
  shows "sources r = [] \<or> (\<exists>docs. retrieve e q = Returned docs \<and> sources r = extract_sources docs)"
  using assms
  by (auto simp: query_def query_body_def generate_response_def generate_followup_response_def
        Let_def not_ready_result_def invalid_result_def no_documents_result_def
        failure_result_def
      split: outcome.splits prod.splits if_splits)

subsection \<open>Source extraction\<close>

lemma extract_loop_acc:
  "extract_loop docs acc seen = acc @ extract_loop docs [] seen"
proof (induction docs arbitrary: acc seen)
  case Nil
  show ?case by simp
next
  case (Cons d ds)
  show ?case
    using Cons.IH [of "acc @ [source_of d]" "insert (source_id d) seen"]
          Cons.IH [of "[source_of d]" "insert (source_id d) seen"]
          Cons.IH [of acc seen]
    by simp
qed

lemma extract_loop_append:
  "extract_loop (xs @ ys) acc seen =
     extract_loop ys (extract_loop xs acc seen) (seen \<union> source_id ` set xs)"
  by (induction xs arbitrary: acc seen) (auto simp: insert_absorb)

lemma extract_loop_length:
  "finite seen \<Longrightarrow> length (extract_loop docs [] seen) = card (source_id ` set docs - seen)"
proof (induction docs arbitrary: seen)
  case Nil
  show ?case by simp
next
  case (Cons d ds)
  show ?case
  proof (cases "source_id d \<in> seen")
    case True
    then have "source_id ` set (d # ds) - seen = source_id ` set ds - seen" by auto
    with True Cons show ?thesis by simp
  next
    case False
    have eq: "source_id ` set (d # ds) - seen
                = insert (source_id d) (source_id ` set ds - insert (source_id d) seen)"
      using False by auto
    have "extract_loop (d # ds) [] seen
            = source_of d # extract_loop ds [] (insert (source_id d) seen)"
      using False extract_loop_acc [of ds "[source_of d]"] by simp
    then show ?thesis
      using Cons.IH [of "insert (source_id d) seen"] Cons.prems eq by simp
  qed
qed

lemma extract_loop_set:
  "set (extract_loop docs acc seen) \<subseteq> set acc \<union> source_of ` set docs"
proof (induction docs arbitrary: acc seen)
  case Nil
  show ?case by simp
next
  case (Cons d ds)
  show ?case
    using Cons.IH [of "acc @ [source_of d]" "insert (source_id d) seen"] Cons.IH [of acc seen]
    by (cases "source_id d \<in> seen") auto
qed

lemma extract_sources_length: "length (extract_sources docs) = card (source_id ` set docs)"
  by (simp add: extract_sources_def extract_loop_length)

lemma extract_sources_le: "length (extract_sources docs) \<le> length docs"
  by (metis extract_sources_length card_image_le card_length le_trans List.finite_set)

lemma extract_sources_Nil: "extract_sources [] = []"
  by (simp add: extract_sources_def)

lemma extract_sources_snoc:
  "extract_sources (pre @ [d])
     = (if source_id d \<in> source_id ` set pre then extract_sources pre
        else extract_sources pre @ [source_of d])"
  by (simp add: extract_sources_def extract_loop_append)

text \<open>The extracted sources are those of a selection of the chunks with one chunk per identifier.\<close>

lemma extract_sources_selection:
  "\<exists>ds. extract_sources docs = map source_of ds \<and> set ds \<subseteq> set docs
        \<and> distinct (map source_id ds) \<and> source_id ` set ds = source_id ` set docs"
proof (induction docs rule: rev_induct)
  case Nil
  show ?case by (simp add: extract_sources_Nil)
next
  case (snoc d docs)
  then obtain ds where ds: "extract_sources docs = map source_of ds" "set ds \<subseteq> set docs"
      "distinct (map source_id ds)" "source_id ` set ds = source_id ` set docs"
    by blast
  show ?case
  proof (cases "source_id d \<in> source_id ` set docs")
    case True
    then have "extract_sources (docs @ [d]) = map source_of ds"
      using ds(1) by (simp add: extract_sources_snoc)
    moreover have "source_id ` set ds = source_id ` set (docs @ [d])"
      using True ds(4) by auto
    moreover have "set ds \<subseteq> set (docs @ [d])" using ds(2) by auto
    ultimately show ?thesis using ds(3) by blast
  next
    case False
    then have "extract_sources (docs @ [d]) = map source_of (ds @ [d])"
      using ds(1) by (simp add: extract_sources_snoc)
    moreover have "source_id ` set (ds @ [d]) = source_id ` set (docs @ [d])"
      using ds(4) by auto
    moreover have "set (ds @ [d]) \<subseteq> set (docs @ [d])" using ds(2) by auto
    moreover have "distinct (map source_id (ds @ [d]))"
      using ds(3) ds(4) False by auto
    ultimately show ?thesis by blast
  qed
qed

text \<open>Sources are attached on the successful path with \<open>include_sources\<close>, and only there.\<close>

lemma query_sources_exact:
  assumes "fst (query e self q inc) = Returned r"
  shows "(success r = Some True \<and> inc
            \<longrightarrow> (\<exists>docs. retrieve e q = Returned docs \<and> docs \<noteq> [] \<and> sources r = extract_sources docs))
       \<and> (\<not> (success r = Some True \<and> inc) \<longrightarrow> sources r = [])"
  using assms
  by (auto simp: query_def query_body_def generate_response_def generate_followup_response_def
        Let_def not_ready_result_def invalid_result_def no_documents_result_def
        failure_result_def
      split: outcome.splits prod.splits if_splits)

subsection \<open>Context assembly\<close>

lemma length_py_join:
  "parts \<noteq> [] \<Longrightarrow> length (py_join NL parts) + 1 = sum_list (map length parts) + length parts"
  by (induction NL parts rule: py_join.induct) (simp_all add: NL_def)

text \<open>
  Invariant of the loop once a part has been appended: the characters counted in
  \<open>current_length\<close> stay within \<open>bound\<close>, and at most the marker is added beyond it.
\<close>

lemma format_loop_invariant:
  assumes "context_parts \<noteq> []"
    and "current_length = int (sum_list (map length context_parts))"
    and "current_length \<le> bound" and "max_length \<le> bound"
  shows "format_loop max_length i docs context_parts current_length \<noteq> []
       \<and> int (sum_list (map length (format_loop max_length i docs context_parts current_length)))
            \<le> bound + int (length truncation_marker)
       \<and> length (format_loop max_length i docs context_parts current_length)
            \<le> length context_parts + length docs"
  using assms
proof (induction docs arbitrary: i context_parts current_length)
  case Nil
  then show ?case by simp
next
  case (Cons doc docs)
  let ?part = "doc_header i doc @ py_strip (page_content doc)"
  let ?add = "int (length (doc_header i doc)) + int (length (py_strip (page_content doc)))"
  show ?case
  proof (cases "current_length + ?add > max_length")
    case True
    then have "format_loop max_length i (doc # docs) context_parts current_length
                 = context_parts @ [truncation_marker]"
      using Cons.prems(1) by (simp add: Let_def)
    then show ?thesis using Cons.prems by simp
  next
    case False
    then have step: "format_loop max_length i (doc # docs) context_parts current_length
                 = format_loop max_length (i + 1) docs (context_parts @ [?part]) (current_length + ?add)"
      by (simp add: Let_def)
    have "format_loop max_length (i + 1) docs (context_parts @ [?part]) (current_length + ?add) \<noteq> []
       \<and> int (sum_list (map length (format_loop max_length (i + 1) docs (context_parts @ [?part]) (current_length + ?add))))
            \<le> bound + int (length truncation_marker)
       \<and> length (format_loop max_length (i + 1) docs (context_parts @ [?part]) (current_length + ?add))
            \<le> length (context_parts @ [?part]) + length docs"
      using Cons.prems False by (intro Cons.IH) simp_all
    then show ?thesis unfolding step by simp
  qed
qed

lemma format_first_step:
  "format_loop max_length 0 (doc # docs) [] 0 =
     format_loop max_length 1 docs [doc_header 0 doc @ py_strip (page_content doc)]
       (int (length (doc_header 0 doc @ py_strip (page_content doc))))"
  by (simp add: Let_def)

lemma format_length_max:
  "int (length (format_documents_for_context (doc # docs) max_length))
     \<le> max max_length (int (length (doc_header 0 doc @ py_strip (page_content doc))))
         + int (length truncation_marker) + int (length docs)"
proof -
  let ?first = "doc_header 0 doc @ py_strip (page_content doc)"
  let ?bound = "max max_length (int (length ?first))"
  let ?parts = "format_loop max_length 1 docs [?first] (int (length ?first))"
  have inv: "?parts \<noteq> []
       \<and> int (sum_list (map length ?parts)) \<le> ?bound + int (length truncation_marker)
       \<and> length ?parts \<le> length [?first] + length docs"
    by (rule format_loop_invariant) simp_all
  then have "length (py_join NL ?parts) + 1 = sum_list (map length ?parts) + length ?parts"
    by (intro length_py_join) simp
  then have "int (length (py_join NL ?parts)) + 1
               = int (sum_list (map length ?parts)) + int (length ?parts)"
    by (metis of_nat_add of_nat_1)
  moreover have "format_documents_for_context (doc # docs) max_length = py_join NL ?parts"
    unfolding format_documents_for_context_def format_first_step by simp
  ultimately show ?thesis using inv by simp
qed

section \<open>Claims\<close>

subsection \<open>C1: the scope reminder\<close>

text \<open>
  C1. For an accepted question of more than 3 words without an HR keyword the scope reminder is
  to be prepended to the answer. \<open>validate_question\<close> does return the reminder for the
  question below, but \<open>query\<close> reads the message only when the question is rejected: the
  answer is the stripped text of the backend alone, and the reminder is not its prefix.
\<close>

theorem scope_reminder_not_prepended:
  "validate_question ''Where can I park my car?'' = (True, scope_reminder)
   \<and> fst (query example_env ready_pipeline ''Where can I park my car?'' True)
       = Returned \<lparr> answer = ''You can park behind the office.'',
                    sources = [\<lparr> src_file = PStr ''facilities.pdf'', page = ''3'',
                                 content_preview = ''Parking is behind the office.'' \<rparr>],
                    error = None, warning = None, retrieved_docs_count = Some 1,
                    success = Some True \<rparr>
   \<and> \<not> starts_with ''You can park behind the office.'' scope_reminder"
  by code_simp

subsection \<open>C2: length of the source list\<close>

text \<open>
  C2 as stated (at most 3 sources) fails: four retrieved chunks on four pages give four sources.
\<close>

theorem four_sources_counterexample:
  "\<not> length (extract_sources (map leave_doc [1, 2, 3, 4])) \<le> 3
   \<and> (case fst (query (example_env\<lparr>retrieve := \<lambda>question. Returned (map leave_doc [1, 2, 3, 4])\<rparr>)
                  ready_pipeline ''What is the leave policy?'' True) of
        Returned r \<Rightarrow> length (sources r) = 4
      | other \<Rightarrow> False)"
  by code_simp

text \<open>
  C2, amended. On a successful answer with sources requested, the source list has exactly one
  entry per distinct source identifier among the retrieved chunks: it is the list of the sources
  of a selection of the chunks in which every identifier of the retrieval occurs once. Its
  length is the number of distinct identifiers, hence at most the number of retrieved chunks.
  On every other path the list is empty. There is no cap at 3.
\<close>

theorem sources_one_per_identifier:
  assumes "fst (query e self question include_sources) = Returned r"
  shows "(success r = Some True \<and> include_sources
            \<longrightarrow> (\<exists>docs ds. retrieve e question = Returned docs
                   \<and> sources r = extract_sources docs
                   \<and> sources r = map source_of ds
                   \<and> set ds \<subseteq> set docs
                   \<and> distinct (map source_id ds)
                   \<and> source_id ` set ds = source_id ` set docs
                   \<and> length (sources r) = card (source_id ` set docs)
                   \<and> length (sources r) \<le> length docs))
       \<and> (\<not> (success r = Some True \<and> include_sources) \<longrightarrow> sources r = [])"
proof -
  note exact = query_sources_exact [OF assms]
  have "\<exists>docs ds. retrieve e question = Returned docs
                   \<and> sources r = extract_sources docs
                   \<and> sources r = map source_of ds
                   \<and> set ds \<subseteq> set docs
                   \<and> distinct (map source_id ds)
                   \<and> source_id ` set ds = source_id ` set docs
                   \<and> length (sources r) = card (source_id ` set docs)
                   \<and> length (sources r) \<le> length docs"
    if "success r = Some True \<and> include_sources"
  proof -
    from exact that obtain docs where docs: "retrieve e question = Returned docs"
        "sources r = extract_sources docs"
      by blast
    from extract_sources_selection [of docs] obtain ds where
        "extract_sources docs = map source_of ds" "set ds \<subseteq> set docs"
        "distinct (map source_id ds)" "source_id ` set ds = source_id ` set docs"
      by blast
    then show ?thesis
      using docs extract_sources_length [of docs] extract_sources_le [of docs] by auto
  qed
  then show ?thesis using exact by blast
qed

theorem sources_one_per_identifier_witness:
  "fst (query (example_env\<lparr>retrieve := \<lambda>question. Returned dup_docs\<rparr>) ready_pipeline
          ''What is the leave policy?'' True)
     = Returned \<lparr> answer = ''You can park behind the office.'',
                  sources = map source_of (map leave_doc [1, 2, 3, 4]),
                  error = None, warning = None, retrieved_docs_count = Some 5,
                  success = Some True \<rparr>
   \<and> length dup_docs = 5
   \<and> card (source_id ` set dup_docs) = 4"
proof -
  let ?e = "example_env\<lparr>retrieve := \<lambda>question. Returned dup_docs\<rparr>"
  let ?r = "\<lparr> answer = ''You can park behind the office.'',
              sources = map source_of (map leave_doc [1, 2, 3, 4]),
              error = None, warning = None, retrieved_docs_count = Some 5,
              success = Some True \<rparr>"
  have q: "fst (query ?e ready_pipeline ''What is the leave policy?'' True) = Returned ?r"
    by code_simp
  have s: "success ?r = Some True \<and> True" by simp
  from sources_one_per_identifier [OF q] s
  obtain docs where "retrieve ?e ''What is the leave policy?'' = Returned docs"
      and "length (sources ?r) = card (source_id ` set docs)"
    by blast
  then have "card (source_id ` set dup_docs) = 4" by simp
  moreover have "length dup_docs = 5" by (simp add: dup_docs_def)
  ultimately show ?thesis using q by simp
qed

subsection \<open>C3: a caller-supplied transcript\<close>




subsection \<open>C4: length of the assembled context\<close>

text \<open>
  C4 as stated fails, because the parts are joined with newlines that the running total does
  not count. With budget 0 the first chunk (40 characters) is over budget and the result has
  40 + 1 + 61 = 102 characters against a claimed bound of 0 + 61 + 40; with budget 40 the
  first chunk fits exactly and the result has 102 characters against 40 + 61.
\<close>

theorem context_bound_counterexample:
  "length (format_documents_for_context [bare_doc, parking_doc] 0) = 102
   \<and> claimed_context_bound [bare_doc, parking_doc] 0 = 101
   \<and> \<not> int (length (format_documents_for_context [bare_doc, parking_doc] 0))
         \<le> claimed_context_bound [bare_doc, parking_doc] 0
   \<and> length (format_documents_for_context [bare_doc, parking_doc] 40) = 102
   \<and> claimed_context_bound [bare_doc, parking_doc] 40 = 101
   \<and> \<not> int (length (format_documents_for_context [bare_doc, parking_doc] 40))
         \<le> claimed_context_bound [bare_doc, parking_doc] 40"
  by code_simp

text \<open>
  C4, amended. For every sequence of chunks and every budget \<open>max_length \<ge> 0\<close>, the
  assembled context has at most \<open>max_length\<close> characters plus the truncation marker plus the
  first rendered chunk when that alone exceeds the budget, plus one joining newline for every
  chunk after the first.
\<close>

theorem context_length_bound:
  assumes "0 \<le> max_length"
  shows "int (length (format_documents_for_context documents max_length))
           \<le> claimed_context_bound documents max_length + int (length (tl documents))"
proof (cases documents)
  case Nil
  then show ?thesis
    using assms
    by (simp add: format_documents_for_context_def claimed_context_bound_def truncation_marker_def)
next
  case (Cons doc docs)
  let ?first = "int (length (doc_header 0 doc @ py_strip (page_content doc)))"
  have "max max_length ?first \<le> max_length + (if ?first > max_length then ?first else 0)"
    using assms by simp
  moreover have "claimed_context_bound (doc # docs) max_length
                   = max_length + int (length truncation_marker)
                       + (if ?first > max_length then ?first else 0)"
    by (simp only: claimed_context_bound_def Let_def list.case)
  ultimately have "int (length (format_documents_for_context (doc # docs) max_length))
                     \<le> claimed_context_bound (doc # docs) max_length + int (length docs)"
    using format_length_max [of doc docs max_length] by linarith
  then show ?thesis using Cons by simp
qed

theorem context_length_bound_witness:
  "(0::int) \<le> 40
   \<and> int (length (format_documents_for_context [bare_doc, parking_doc] 40))
       \<le> claimed_context_bound [bare_doc, parking_doc] 40 + int (length (tl [bare_doc, parking_doc]))"
proof -
  have h: "(0::int) \<le> 40" by simp
  show ?thesis
    using h context_length_bound [OF h, of "[bare_doc, parking_doc]"] by simp
qed

subsection \<open>C5: the pipeline's memory\<close>




subsection \<open>C6: nothing retrieved\<close>

text \<open>
  C6. On an initialized pipeline, for an accepted question for which retrieval returns no
  chunk, \<open>query\<close> (and \<open>query_with_history\<close>) returns the fixed "couldn't find relevant
  information" answer with the warning set and no sources, leaves the pipeline as it was and
  makes no call to the generation backend.
\<close>

theorem no_documents_answer:
  assumes "is_initialized self" and "fst (validate_question question)"
    and "retrieve e question = Returned []"
  shows "query e self question include_sources
           = (Returned \<lparr> answer = ''I couldn't find relevant information in the HR documents to answer your question. Please try rephrasing your question or contact HR directly for assistance.'',
                          sources = [], error = None,
                          warning = Some ''No relevant documents found'',
                          retrieved_docs_count = None, success = None \<rparr>,
              self, [])
       \<and> query_with_history e self question transcript
           = (Returned \<lparr> answer = ''I couldn't find relevant information in the HR documents to answer your question. Please try rephrasing your question or contact HR directly for assistance.'',
                          sources = [], error = None,
                          warning = Some ''No relevant documents found'',
                          retrieved_docs_count = None, success = None \<rparr>,
              self, [])"
proof -
  obtain msg where v: "validate_question question = (True, msg)"
    using assms(2) by (cases "validate_question question") auto
  have q: "query e s question b = (Returned no_documents_result, s, [])" if "is_initialized s" for s b
    using that v assms(3) by (simp add: query_def query_body_def)
  have "query_with_history e self question transcript = (Returned no_documents_result, self, [])"
    using assms(1) by (simp add: query_with_history_def q)
  with q [OF assms(1)] show ?thesis by (simp add: no_documents_result_def)
qed

theorem no_documents_answer_witness:
  "is_initialized ready_pipeline
   \<and> fst (validate_question ''What is the leave policy?'')
   \<and> snd (snd (query (example_env\<lparr>retrieve := \<lambda>question. Returned []\<rparr>) ready_pipeline
                  ''What is the leave policy?'' True)) = []
   \<and> (case fst (query (example_env\<lparr>retrieve := \<lambda>question. Returned []\<rparr>) ready_pipeline
                  ''What is the leave policy?'' True) of
        Returned r \<Rightarrow> sources r = [] \<and> warning r = Some ''No relevant documents found''
      | other \<Rightarrow> False)"
proof -
  have i: "is_initialized ready_pipeline" by (simp add: ready_pipeline_def)
  have v: "fst (validate_question ''What is the leave policy?'')" by code_simp
  have r: "retrieve (example_env\<lparr>retrieve := \<lambda>question. Returned []\<rparr>) ''What is the leave policy?''
             = Returned []"
    by simp
  show ?thesis
    using i v no_documents_answer [OF i v r, of True "[]"] by simp
qed

subsection \<open>C7: content previews\<close>

text \<open>
  C7 as stated (previews of at most 200 characters) fails: a chunk of 201 characters gets a
  preview of 203 characters, its first 200 followed by the three dots.
\<close>

theorem preview_203_counterexample:
  "map (\<lambda>s. length (content_preview s)) (extract_sources [long_doc]) = [203]
   \<and> \<not> length (content_preview (source_of long_doc)) \<le> 200
   \<and> (case fst (query (example_env\<lparr>retrieve := \<lambda>question. Returned [long_doc]\<rparr>)
                  ready_pipeline ''What is the leave policy?'' True) of
        Returned r \<Rightarrow> map (\<lambda>s. length (content_preview s)) (sources r) = [203]
      | other \<Rightarrow> False)"
  by code_simp

text \<open>
  C7, amended. Every source entry of a result of \<open>query\<close> comes from a retrieved chunk;
  its preview is the chunk's content when that has at most 200 characters, and otherwise the
  first 200 characters of the content followed by \<open>...\<close>, 203 characters in all.
\<close>

theorem preview_of_source:
  assumes "fst (query e self question include_sources) = Returned r"
    and "s \<in> set (sources r)"
  shows "\<exists>docs. retrieve e question = Returned docs
           \<and> (\<exists>doc \<in> set docs.
                 content_preview s
                   = (if length (page_content doc) \<le> 200 then page_content doc
                      else take 200 (page_content doc) @ ''...'')
               \<and> length (content_preview s)
                   = (if length (page_content doc) \<le> 200 then length (page_content doc)
                      else 203))"
proof -
  from query_sources [OF assms(1)] assms(2)
  obtain docs where docs: "retrieve e question = Returned docs" "sources r = extract_sources docs"
    by auto
  with assms(2) have "s \<in> source_of ` set docs"
    using extract_loop_set [of docs "[]" "{}"] by (auto simp: extract_sources_def)
  then obtain doc where doc: "doc \<in> set docs" "s = source_of doc" by auto
  have "content_preview s
          = (if length (page_content doc) \<le> 200 then page_content doc
             else take 200 (page_content doc) @ ''...'')
      \<and> length (content_preview s)
          = (if length (page_content doc) \<le> 200 then length (page_content doc) else 203)"
    using doc(2) by (auto simp: source_of_def content_preview_of_def)
  with docs(1) doc(1) show ?thesis by blast
qed

theorem preview_of_source_witness:
  "fst (query (example_env\<lparr>retrieve := \<lambda>question. Returned [long_doc]\<rparr>)
          ready_pipeline ''What is the leave policy?'' True)
     = Returned \<lparr> answer = ''You can park behind the office.'',
                  sources = [source_of long_doc],
                  error = None, warning = None, retrieved_docs_count = Some 1,
                  success = Some True \<rparr>
   \<and> content_preview (source_of long_doc) = replicate 200 (CHR ''x'') @ ''...''
   \<and> length (content_preview (source_of long_doc)) = 203"
proof -
  have q: "fst (query (example_env\<lparr>retrieve := \<lambda>question. Returned [long_doc]\<rparr>)
          ready_pipeline ''What is the leave policy?'' True)
     = Returned \<lparr> answer = ''You can park behind the office.'',
                  sources = [source_of long_doc],
                  error = None, warning = None, retrieved_docs_count = Some 1,
                  success = Some True \<rparr>"
    by code_simp
  have m: "source_of long_doc
             \<in> set (sources \<lparr> answer = ''You can park behind the office.'',
                  sources = [source_of long_doc],
                  error = None, warning = None, retrieved_docs_count = Some 1,
                  success = Some True \<rparr>)"
    by simp
  show ?thesis
    using q preview_of_source [OF q m] by (simp add: long_doc_def)
qed

subsection \<open>C8: the deduplication key\<close>

text \<open>
  C8. The deduplication key of a chunk is the single string \<open>source_file + "_" + page\<close>
  (with the defaults \<open>Unknown\<close> and \<open>N/A\<close>). Going through the chunks in order, a chunk adds
  its source exactly when its key differs from the keys of all chunks before it; so a chunk
  whose key equals that of an earlier chunk is dropped from the source list, whatever its file
  and page are. For file \<open>a_1\<close>, page \<open>2\<close> and file \<open>a\<close>, page \<open>1_2\<close> the keys coincide.
\<close>

theorem dedup_keys_on_concatenation:
  "source_id doc
     = py_str (dict_get (metadata doc) ''source_file'' (PStr ''Unknown'')) @ ''_''
         @ py_str (dict_get (metadata doc) ''page'' (PStr ''N/A''))
   \<and> extract_sources [] = []
   \<and> extract_sources (docs @ [doc])
       = (if source_id doc \<in> source_id ` set docs then extract_sources docs
          else extract_sources docs @ [source_of doc])
   \<and> (source_id earlier = source_id later
        \<longrightarrow> extract_sources (pre @ [earlier] @ mid @ [later] @ post)
            = extract_sources (pre @ [earlier] @ mid @ post))"
proof -
  have "extract_sources (pre @ [earlier] @ mid @ [later] @ post)
          = extract_sources (pre @ [earlier] @ mid @ post)"
    if same: "source_id earlier = source_id later"
  proof -
    let ?xs = "pre @ [earlier] @ mid"
    have mem: "source_id later \<in> {} \<union> source_id ` set ?xs" using same by auto
    have "extract_loop (?xs @ ([later] @ post)) [] {} = extract_loop (?xs @ post) [] {}"
      unfolding extract_loop_append [of ?xs] using mem by simp
    then show ?thesis by (simp add: extract_sources_def)
  qed
  then show ?thesis
    using extract_sources_snoc [of docs doc]
    by (simp add: source_id_def extract_sources_Nil)
qed

theorem dedup_keys_on_concatenation_witness:
  "source_id doc_a1_2 = ''a_1_2''
   \<and> source_id doc_a_12 = ''a_1_2''
   \<and> (src_file (source_of doc_a1_2), page (source_of doc_a1_2))
       \<noteq> (src_file (source_of doc_a_12), page (source_of doc_a_12))
   \<and> extract_sources [doc_a1_2, doc_a_12] = [source_of doc_a1_2]
   \<and> source_id parking_doc = ''facilities.pdf_3''
   \<and> extract_sources [doc_a1_2, parking_doc] = [source_of doc_a1_2, source_of parking_doc]"
proof -
  have k1: "source_id doc_a1_2 = ''a_1_2''" by code_simp
  have k2: "source_id doc_a_12 = ''a_1_2''" by code_simp
  have k3: "source_id parking_doc = ''facilities.pdf_3''" by code_simp
  have same: "source_id doc_a1_2 = source_id doc_a_12" using k1 k2 by simp
  have new: "source_id parking_doc \<notin> source_id ` set [doc_a1_2]" using k1 k3 by simp
  have one: "extract_sources [doc_a1_2] = [source_of doc_a1_2]"
    by (simp add: extract_sources_def)
  have differ: "(src_file (source_of doc_a1_2), page (source_of doc_a1_2))
       \<noteq> (src_file (source_of doc_a_12), page (source_of doc_a_12))"
    by (simp add: source_of_def doc_a1_2_def doc_a_12_def dict_get_def)
  have dropped: "extract_sources [doc_a1_2, doc_a_12] = [source_of doc_a1_2]"
    using same one
      dedup_keys_on_concatenation [of doc_a_12 "[doc_a1_2]" doc_a1_2 doc_a_12 "[]" "[]" "[]"]
    by simp
  have kept: "extract_sources [doc_a1_2, parking_doc] = [source_of doc_a1_2, source_of parking_doc]"
    using new one
      dedup_keys_on_concatenation [of parking_doc "[doc_a1_2]" doc_a1_2 doc_a_12 "[]" "[]" "[]"]
    by simp
  show ?thesis using k1 k2 k3 differ dropped kept by simp
qed

subsection \<open>C9: the pipeline's own history after query_with_history\<close>

text \<open>
  C9. Whatever the question, the transcript and the outcome of the inner \<open>query\<close> (a result
  or an exception that escapes it), \<open>query_with_history\<close> leaves the pipeline exactly as it
  found it: the exchange of an answer produced with the transcript is appended to the temporary
  history only and never reaches the pipeline's own memory.
\<close>

theorem query_with_history_restores:
  "fst (snd (query_with_history e self question transcript)) = self"
proof -
  obtain h where "fst (snd (query e (self\<lparr>chat_history := last_n 5 transcript\<rparr>) question True))
                    = self\<lparr>chat_history := last_n 5 transcript, chat_history := h\<rparr>"
    using query_frame [of e "self\<lparr>chat_history := last_n 5 transcript\<rparr>" question True] by auto
  then show ?thesis
    by (cases "query e (self\<lparr>chat_history := last_n 5 transcript\<rparr>) question True")
       (simp add: query_with_history_def)
qed

theorem query_with_history_restores_witness:
  "fst (query_with_history example_env (ready_pipeline\<lparr>chat_history := [exchange_of ''q0'' ''a0'']\<rparr>)
          ''Where can I park my car?'' transcript5)
     = Returned \<lparr> answer = ''You can park behind the office.'',
                  sources = [source_of parking_doc],
                  error = None, warning = None, retrieved_docs_count = Some 1,
                  success = Some True \<rparr>
   \<and> fst (query_with_history (example_env\<lparr>llm_invoke := \<lambda>question context. Interrupted\<rparr>)
          (ready_pipeline\<lparr>chat_history := [exchange_of ''q0'' ''a0'']\<rparr>)
          ''Where can I park my car?'' transcript5) = Interrupted
   \<and> chat_history (fst (snd (query_with_history example_env
          (ready_pipeline\<lparr>chat_history := [exchange_of ''q0'' ''a0'']\<rparr>)
          ''Where can I park my car?'' transcript5))) = [exchange_of ''q0'' ''a0'']
   \<and> chat_history (fst (snd (query_with_history
          (example_env\<lparr>llm_invoke := \<lambda>question context. Interrupted\<rparr>)
          (ready_pipeline\<lparr>chat_history := [exchange_of ''q0'' ''a0'']\<rparr>)
          ''Where can I park my car?'' transcript5))) = [exchange_of ''q0'' ''a0'']"
proof -
  have a: "fst (query_with_history example_env (ready_pipeline\<lparr>chat_history := [exchange_of ''q0'' ''a0'']\<rparr>)
          ''Where can I park my car?'' transcript5)
     = Returned \<lparr> answer = ''You can park behind the office.'',
                  sources = [source_of parking_doc],
                  error = None, warning = None, retrieved_docs_count = Some 1,
                  success = Some True \<rparr>"
    by code_simp
  have b: "fst (query_with_history (example_env\<lparr>llm_invoke := \<lambda>question context. Interrupted\<rparr>)
          (ready_pipeline\<lparr>chat_history := [exchange_of ''q0'' ''a0'']\<rparr>)
          ''Where can I park my car?'' transcript5) = Interrupted"
    by code_simp
  show ?thesis
    using a b
      query_with_history_restores [of example_env
        "ready_pipeline\<lparr>chat_history := [exchange_of ''q0'' ''a0'']\<rparr>"
        "''Where can I park my car?''" transcript5]
      query_with_history_restores [of "example_env\<lparr>llm_invoke := \<lambda>question context. Interrupted\<rparr>"
        "ready_pipeline\<lparr>chat_history := [exchange_of ''q0'' ''a0'']\<rparr>"
        "''Where can I park my car?''" transcript5]
    by simp
qed

subsection \<open>C10: a failed initialization\<close>

text \<open>
  C10. When the body of \<open>initialize_knowledge_base\<close> raises (the document processor or the
  vector store fails), the call returns \<open>False\<close> and the pipeline is left with
  \<open>is_initialized = False\<close>, also when it was initialized before the call.
\<close>

theorem failed_initialization_demotes:
  assumes "fst (initialize_body e self) = Raised msg"
  shows "initialize_knowledge_base e self = (Returned False, self\<lparr>is_initialized := False\<rparr>)"
  using assms
  by (auto simp: initialize_knowledge_base_def initialize_body_def
      split: outcome.splits if_splits)

theorem failed_initialization_demotes_witness:
  "is_initialized ready_pipeline
   \<and> fst (initialize_body (example_env\<lparr>add_documents := \<lambda>documents. Raised ''quota''\<rparr>) ready_pipeline)
       = Raised ''quota''
   \<and> initialize_knowledge_base (example_env\<lparr>add_documents := \<lambda>documents. Raised ''quota''\<rparr>) ready_pipeline
       = (Returned False, \<lparr> is_initialized = False, chat_history = [] \<rparr>)"
proof -
  have r: "fst (initialize_body (example_env\<lparr>add_documents := \<lambda>documents. Raised ''quota''\<rparr>) ready_pipeline)
       = Raised ''quota''"
    by (simp add: initialize_body_def example_env_def)
  show ?thesis
    using r failed_initialization_demotes [OF r] by (simp add: ready_pipeline_def)
qed

end
